theory Spec2Isabelle
  imports Complex_Main
begin

section \<open>JavaScript numbers\<close>

text \<open>
  The signals of \<^verbatim>\<open>face.js\<close> are JavaScript numbers. A number is modelled as a
  real, one of the two infinities, or NaN. The special values follow ECMAScript:
  \<open>0 / 0\<close>, \<open>Infinity - Infinity\<close> and \<open>0 * Infinity\<close> are NaN, NaN is absorbing,
  every comparison with NaN is false, and \<open>Math.min\<close> and \<open>Math.max\<close> return NaN as
  soon as one argument is NaN.

  The model is an idealisation of IEEE doubles, and its limits are these. Arithmetic on
  two finite numbers is taken exactly: a result is not rounded to the nearest double
  and does not overflow to an infinity. The two zeros are one, and a zero divisor
  counts as \<open>+0\<close>, which is what \<open>x - x\<close> gives. So the model agrees with the code
  where every intermediate result is a double and no zero is negative, and it is used
  in this theory only for three kinds of fact: evaluations on inputs of small whole
  numbers, where each step is exact in doubles; facts about the special values; and
  facts that hold whatever the arithmetic is. No equation between a signal and a
  formula over the reals is stated, since the code's rounded result differs from it.
\<close>

datatype jsnum = Num real | PosInf | NegInf | NaN

fun js_neg :: "jsnum \<Rightarrow> jsnum" where
  "js_neg (Num a) = Num (- a)"
| "js_neg PosInf = NegInf"
| "js_neg NegInf = PosInf"
| "js_neg NaN = NaN"

fun js_add :: "jsnum \<Rightarrow> jsnum \<Rightarrow> jsnum" where
  "js_add NaN _ = NaN"
| "js_add _ NaN = NaN"
| "js_add (Num a) (Num b) = Num (a + b)"
| "js_add (Num a) PosInf = PosInf"
| "js_add (Num a) NegInf = NegInf"
| "js_add PosInf (Num b) = PosInf"
| "js_add NegInf (Num b) = NegInf"
| "js_add PosInf PosInf = PosInf"
| "js_add NegInf NegInf = NegInf"
| "js_add PosInf NegInf = NaN"
| "js_add NegInf PosInf = NaN"

definition js_sub :: "jsnum \<Rightarrow> jsnum \<Rightarrow> jsnum" where
  "js_sub a b = js_add a (js_neg b)"

fun js_mul :: "jsnum \<Rightarrow> jsnum \<Rightarrow> jsnum" where
  "js_mul NaN _ = NaN"
| "js_mul _ NaN = NaN"
| "js_mul (Num a) (Num b) = Num (a * b)"
| "js_mul (Num a) PosInf = (if a = 0 then NaN else if 0 < a then PosInf else NegInf)"
| "js_mul (Num a) NegInf = (if a = 0 then NaN else if 0 < a then NegInf else PosInf)"
| "js_mul PosInf (Num b) = (if b = 0 then NaN else if 0 < b then PosInf else NegInf)"
| "js_mul NegInf (Num b) = (if b = 0 then NaN else if 0 < b then NegInf else PosInf)"
| "js_mul PosInf PosInf = PosInf"
| "js_mul NegInf NegInf = PosInf"
| "js_mul PosInf NegInf = NegInf"
| "js_mul NegInf PosInf = NegInf"

fun js_div :: "jsnum \<Rightarrow> jsnum \<Rightarrow> jsnum" where
  "js_div NaN _ = NaN"
| "js_div _ NaN = NaN"
| "js_div (Num a) (Num b) =
     (if b = 0 then (if a = 0 then NaN else if 0 < a then PosInf else NegInf)
      else Num (a / b))"
| "js_div (Num a) PosInf = Num 0"
| "js_div (Num a) NegInf = Num 0"
| "js_div PosInf (Num b) = (if 0 \<le> b then PosInf else NegInf)"
| "js_div NegInf (Num b) = (if 0 \<le> b then NegInf else PosInf)"
| "js_div PosInf PosInf = NaN"
| "js_div PosInf NegInf = NaN"
| "js_div NegInf PosInf = NaN"
| "js_div NegInf NegInf = NaN"

fun js_abs :: "jsnum \<Rightarrow> jsnum" where
  "js_abs (Num a) = Num \<bar>a\<bar>"
| "js_abs PosInf = PosInf"
| "js_abs NegInf = PosInf"
| "js_abs NaN = NaN"

fun js_sqrt :: "jsnum \<Rightarrow> jsnum" where
  "js_sqrt (Num a) = (if a < 0 then NaN else Num (sqrt a))"
| "js_sqrt PosInf = PosInf"
| "js_sqrt NegInf = NaN"
| "js_sqrt NaN = NaN"

text \<open>\<open>a < b\<close> and \<open>a > b\<close> of JavaScript: false when an operand is NaN.\<close>

fun js_lt :: "jsnum \<Rightarrow> jsnum \<Rightarrow> bool" where
  "js_lt NaN _ = False"
| "js_lt _ NaN = False"
| "js_lt (Num a) (Num b) = (a < b)"
| "js_lt (Num a) PosInf = True"
| "js_lt (Num a) NegInf = False"
| "js_lt PosInf _ = False"
| "js_lt NegInf (Num b) = True"
| "js_lt NegInf PosInf = True"
| "js_lt NegInf NegInf = False"

definition js_gt :: "jsnum \<Rightarrow> jsnum \<Rightarrow> bool" where
  "js_gt a b = js_lt b a"

definition js_min :: "jsnum \<Rightarrow> jsnum \<Rightarrow> jsnum" where
  "js_min a b = (if a = NaN \<or> b = NaN then NaN else if js_lt b a then b else a)"

definition js_max :: "jsnum \<Rightarrow> jsnum \<Rightarrow> jsnum" where
  "js_max a b = (if a = NaN \<or> b = NaN then NaN else if js_lt a b then b else a)"

section \<open>Landmarks and the settings read by a tick\<close>

text \<open>
  A landmark point has two numeric coordinates; a landmark sequence (an eye, an
  eyebrow, the mouth) is a JavaScript array of points, here a list. Reading an array
  beyond its length gives \<open>undefined\<close>, here \<open>None\<close>.
\<close>

record point =
  x :: jsnum
  y :: jsnum

definition at_index :: "'a list \<Rightarrow> nat \<Rightarrow> 'a option" where
  "at_index xs i = (if i < length xs then Some (xs ! i) else None)"

text \<open>
  The fields of the \<open>settings\<close> object that a detection tick reads, with the types the
  GUI gives them: the four thresholds are numbers, the two toggles are booleans.
\<close>

record settings =
  eyebrowThresholdFloor :: jsnum
  eyebrowThresholdCeil :: jsnum
  mouthThresholdFloor :: jsnum
  mouthThresholdCeil :: jsnum
  showLandmarks :: bool
  showGraphics :: bool

text \<open>An exception of JavaScript, as a value.\<close>

datatype js_error = TypeError | SyntaxError

section \<open>The two signals\<close>

text \<open>\<^verbatim>\<open>euclideanDistance(point1, point2)\<close>, lines 73 to 77.\<close>

definition euclideanDistance :: "point \<Rightarrow> point \<Rightarrow> jsnum" where
  "euclideanDistance point1 point2 =
     (let dx = js_sub (x point1) (x point2);
          dy = js_sub (y point1) (y point2)
      in js_sqrt (js_add (js_mul dx dx) (js_mul dy dy)))"

text \<open>
  \<^verbatim>\<open>Array.prototype.map\<close> with a callback of the element and its index, and
  \<^verbatim>\<open>Array.prototype.reduce\<close> with an initial value.
\<close>

fun map_indexed :: "('a \<Rightarrow> nat \<Rightarrow> 'b) \<Rightarrow> nat \<Rightarrow> 'a list \<Rightarrow> 'b list" where
  "map_indexed f i [] = []"
| "map_indexed f i (p # ps) = f p i # map_indexed f (Suc i) ps"

fun reduce :: "('b \<Rightarrow> 'a \<Rightarrow> 'b) \<Rightarrow> 'a list \<Rightarrow> 'b \<Rightarrow> 'b" where
  "reduce f [] acc = acc"
| "reduce f (d # ds) acc = reduce f ds (f acc d)"

text \<open>
  \<^verbatim>\<open>calculateEyebrowRaise(eyebrow, eye)\<close>, lines 103 to 115. \<^verbatim>\<open>eye[index]\<close> is a
  point object (truthy) when the index is in range and \<open>undefined\<close> (falsy) otherwise.
\<close>

definition calculateEyebrowRaise :: "settings \<Rightarrow> point list \<Rightarrow> point list \<Rightarrow> jsnum" where
  "calculateEyebrowRaise s eyebrow eye =
     (let verticalDistances =
            map_indexed (\<lambda>point index.
              case at_index eye index of
                Some e \<Rightarrow> js_abs (js_sub (y point) (y e))
              | None \<Rightarrow> Num 0) 0 eyebrow;
          averageDistance =
            js_div (reduce (\<lambda>sum dist. js_add sum dist) verticalDistances (Num 0))
                   (Num (real (length verticalDistances)));
          normalizedValue =
            js_div (js_sub averageDistance (eyebrowThresholdFloor s))
                   (js_sub (eyebrowThresholdCeil s) (eyebrowThresholdFloor s))
      in js_max (Num 0) (js_min (Num 1) normalizedValue))"

text \<open>
  \<^verbatim>\<open>calculateMouthOpen(mouth)\<close>, lines 117 to 123. \<^verbatim>\<open>mouth[3]\<close> and \<^verbatim>\<open>mouth[9]\<close>
  are read first; \<^verbatim>\<open>euclideanDistance\<close> then reads \<^verbatim>\<open>point1.x\<close>, which throws a
  TypeError when \<^verbatim>\<open>point1\<close> is \<open>undefined\<close>, and \<^verbatim>\<open>point2.x\<close> likewise.
\<close>

definition calculateMouthOpen :: "settings \<Rightarrow> point list \<Rightarrow> js_error + jsnum" where
  "calculateMouthOpen s mouth =
     (case at_index mouth 3 of
        None \<Rightarrow> Inl TypeError
      | Some point1 \<Rightarrow>
          (case at_index mouth 9 of
             None \<Rightarrow> Inl TypeError
           | Some point2 \<Rightarrow>
               (let verticalDistance = euclideanDistance point1 point2;
                    normalizedValue =
                      js_div (js_sub verticalDistance (mouthThresholdFloor s))
                             (js_sub (mouthThresholdCeil s) (mouthThresholdFloor s))
                in Inr (js_max (Num 0) (js_min (Num 1) normalizedValue)))))"

section \<open>A detection tick\<close>

text \<open>
  The module state that a tick reads and writes (\<^verbatim>\<open>mouthOpen\<close>,
  \<^verbatim>\<open>leftEyebrowRaise\<close>, \<^verbatim>\<open>lastResetTime\<close>, lines 43 to 45), together with the
  effects a tick has on its collaborators, kept as logs: \<open>resetCalls\<close> holds the value
  of \<^verbatim>\<open>currentTime\<close> at each call of \<^verbatim>\<open>resetGame()\<close>, oldest first, \<open>console\<close> the
  messages given to \<^verbatim>\<open>console.log\<close>, and \<open>canvas\<close> the draw commands issued.
\<close>

datatype draw_cmd =
    ClearRect
  | Overlays
  | Circle jsnum jsnum jsnum string jsnum
  | Diamond jsnum jsnum jsnum string jsnum

record face_state =
  mouthOpen :: jsnum
  leftEyebrowRaise :: jsnum
  lastResetTime :: int
  resetCalls :: "int list"
  console :: "string list"
  canvas :: "draw_cmd list"

text \<open>
  One resized detection: the five landmark sequences read at lines 154 to 158. With
  it come the two readings of the outside world that the loop body takes for this
  face: the result of \<^verbatim>\<open>Date.now()\<close> (whole milliseconds) and of
  \<^verbatim>\<open>isGameRunning()\<close>.
\<close>

record detection =
  leftEye :: "point list"
  rightEye :: "point list"
  leftEyebrow :: "point list"
  rightEyebrow :: "point list"
  mouth :: "point list"

record reading = detection +
  dateNow :: int
  gameRunning :: bool

datatype outcome = Completed | Threw js_error

definition drawCircle :: "jsnum \<Rightarrow> jsnum \<Rightarrow> jsnum \<Rightarrow> string \<Rightarrow> jsnum \<Rightarrow> face_state \<Rightarrow> face_state" where
  "drawCircle cx cy radius color alpha st = st\<lparr>canvas := canvas st @ [Circle cx cy radius color alpha]\<rparr>"

definition drawDiamond :: "jsnum \<Rightarrow> jsnum \<Rightarrow> jsnum \<Rightarrow> string \<Rightarrow> jsnum \<Rightarrow> face_state \<Rightarrow> face_state" where
  "drawDiamond cx cy sz color alpha st = st\<lparr>canvas := canvas st @ [Diamond cx cy sz color alpha]\<rparr>"

definition eyeCenter :: "point list \<Rightarrow> point" where
  "eyeCenter eye =
     \<lparr>x = js_div (js_add (x (eye ! 0)) (x (eye ! 3))) (Num 2),
      y = js_div (js_add (y (eye ! 1)) (y (eye ! 5))) (Num 2)\<rparr>"

text \<open>
  Lines 165 to 172: the guarded call of \<^verbatim>\<open>resetGame()\<close>. The comparison with
  \<open>0.7\<close> is the one of JavaScript numbers; the times are whole numbers of
  milliseconds, subtracted exactly.
\<close>

definition maybeReset :: "reading \<Rightarrow> face_state \<Rightarrow> face_state" where
  "maybeReset d st =
     (let currentTime = dateNow d
      in if \<not> gameRunning d \<and> js_gt (leftEyebrowRaise st) (Num (7 / 10))
            \<and> currentTime - lastResetTime st > 3000
         then st\<lparr>resetCalls := resetCalls st @ [currentTime], lastResetTime := currentTime\<rparr>
         else st)"

text \<open>
  Lines 174 to 219, the body of \<^verbatim>\<open>if (settings.showGraphics)\<close>. Both eyes have six
  points here, so the reads of the eyes are in range. \<^verbatim>\<open>calculateMouthOpen\<close> may
  throw, and so may \<^verbatim>\<open>leftEyebrow[2].y\<close> and \<^verbatim>\<open>rightEyebrow[2].y\<close>; what was
  assigned and drawn before the throw stays.
\<close>

definition drawGraphics :: "settings \<Rightarrow> reading \<Rightarrow> jsnum \<Rightarrow> face_state \<Rightarrow> outcome \<times> face_state" where
  "drawGraphics s d rightEyebrowRaise st =
     (let st1 = (if js_gt (leftEyebrowRaise st) (Num 0)
                 then (let leftEyeCenter = eyeCenter (leftEye d)
                       in drawCircle (x leftEyeCenter) (y leftEyeCenter) (Num 5) ''blue''
                            (leftEyebrowRaise st) st)
                 else st);
          st2 = (if js_gt rightEyebrowRaise (Num 0)
                 then (let rightEyeCenter = eyeCenter (rightEye d)
                       in drawCircle (x rightEyeCenter) (y rightEyeCenter) (Num 5) ''blue''
                            rightEyebrowRaise st1)
                 else st1)
      in case calculateMouthOpen s (mouth d) of
           Inl e \<Rightarrow> (Threw e, st2)
         | Inr v \<Rightarrow>
             (let st3 = st2\<lparr>mouthOpen := v\<rparr>
              in if js_gt (mouthOpen st3) (Num 0)
                 then (case at_index (leftEyebrow d) 2 of
                         None \<Rightarrow> (Threw TypeError, st3)
                       | Some lb \<Rightarrow>
                           (case at_index (rightEyebrow d) 2 of
                              None \<Rightarrow> (Threw TypeError, st3)
                            | Some rb \<Rightarrow>
                                (Completed,
                                 drawDiamond
                                   (js_div (js_add (x (leftEye d ! 0)) (x (rightEye d ! 3))) (Num 2))
                                   (js_sub (js_div (js_add (y lb) (y rb)) (Num 2)) (Num 20))
                                   (Num 10) ''blue'' (mouthOpen st3) st3)))
                 else (Completed, st3)))"

text \<open>Lines 153 to 222: the body of the loop over the detections, for one face.\<close>

definition detectFace :: "settings \<Rightarrow> reading \<Rightarrow> face_state \<Rightarrow> outcome \<times> face_state" where
  "detectFace s d st =
     (if length (leftEye d) = 6 \<and> length (rightEye d) = 6
      then (let st1 = st\<lparr>leftEyebrowRaise := calculateEyebrowRaise s (leftEyebrow d) (leftEye d)\<rparr>;
                rightEyebrowRaise = calculateEyebrowRaise s (rightEyebrow d) (rightEye d);
                st2 = maybeReset d st1
            in if showGraphics s then drawGraphics s d rightEyebrowRaise st2
               else (Completed, st2))
      else (Completed,
            st\<lparr>console := console st @ [''Error: Eye landmarks not detected correctly.'']\<rparr>))"

text \<open>The loop of line 152: an exception leaves it, keeping the state reached.\<close>

fun detectLoop :: "settings \<Rightarrow> reading list \<Rightarrow> face_state \<Rightarrow> outcome \<times> face_state" where
  "detectLoop s [] st = (Completed, st)"
| "detectLoop s (d # ds) st =
     (case detectFace s d st of
        (Completed, st') \<Rightarrow> detectLoop s ds st'
      | (Threw e, st') \<Rightarrow> (Threw e, st'))"

text \<open>
  \<^verbatim>\<open>detectFaces(videoEl)\<close> from line 137 on, that is, after the awaited detector has
  delivered its detections: this part contains no \<^verbatim>\<open>await\<close> and runs to its end
  without interruption. The argument is the list of resized detections.
\<close>

definition detectFaces :: "settings \<Rightarrow> reading list \<Rightarrow> face_state \<Rightarrow> outcome \<times> face_state" where
  "detectFaces s resizedDetections st =
     (let st1 = st\<lparr>canvas := canvas st @ [ClearRect]\<rparr>;
          st2 = (if showLandmarks s then st1\<lparr>canvas := canvas st1 @ [Overlays]\<rparr> else st1)
      in detectLoop s resizedDetections st2)"

text \<open>
  A run of ticks, each with the settings in force and the detections delivered. A
  tick that throws rejects its own promise only: the timer starts later ticks all the
  same, on the state the failed one left.
\<close>

fun runTicks :: "(settings \<times> reading list) list \<Rightarrow> face_state \<Rightarrow> face_state" where
  "runTicks [] st = st"
| "runTicks ((s, ds) # ticks) st = runTicks ticks (snd (detectFaces s ds st))"

definition initialState :: face_state where
  "initialState =
     \<lparr>mouthOpen = Num 0, leftEyebrowRaise = Num 0, lastResetTime = 0,
      resetCalls = [], console = [], canvas = []\<rparr>"

definition getMouthOpen :: "face_state \<Rightarrow> jsnum" where
  "getMouthOpen st = mouthOpen st"

definition getBrows :: "face_state \<Rightarrow> jsnum" where
  "getBrows st = leftEyebrowRaise st"

section \<open>The detection timer\<close>

text \<open>
  \<^verbatim>\<open>onPlay\<close> (lines 226 to 231) installs the periodic timer. The browser's side is
  kept as the list of the intervals installed and not cleared, and a counter for the
  identifiers that \<^verbatim>\<open>setInterval\<close> hands out; \<open>intervalId\<close> is the module
  variable of line 39 (\<open>None\<close> while it is \<open>undefined\<close>). The callback given to
  \<^verbatim>\<open>setInterval\<close> is an \<^verbatim>\<open>async\<close> function: a firing of the timer begins a call
  of \<^verbatim>\<open>detectFaces\<close>, which runs up to its \<^verbatim>\<open>await\<close> of the detector and hands
  control back; the rest of the tick runs when the detector has delivered. \<open>inFlight\<close>
  counts the ticks begun and not yet completed.
\<close>

record timer_state =
  intervalId :: "nat option"
  installed :: "nat list"
  nextId :: nat
  inFlight :: nat

definition clearInterval :: "nat option \<Rightarrow> timer_state \<Rightarrow> timer_state" where
  "clearInterval h ts =
     (case h of
        None \<Rightarrow> ts
      | Some i \<Rightarrow> ts\<lparr>installed := removeAll i (installed ts)\<rparr>)"

definition setInterval :: "timer_state \<Rightarrow> nat \<times> timer_state" where
  "setInterval ts =
     (nextId ts, ts\<lparr>installed := installed ts @ [nextId ts], nextId := Suc (nextId ts)\<rparr>)"

definition onPlay :: "timer_state \<Rightarrow> timer_state" where
  "onPlay ts =
     (let ts1 = clearInterval (intervalId ts) ts;
          (h, ts2) = setInterval ts1
      in ts2\<lparr>intervalId := Some h\<rparr>)"

text \<open>
  What can happen next: \<^verbatim>\<open>onPlay\<close> is called (by the video's \<^verbatim>\<open>play\<close> event or by
  \<^verbatim>\<open>onSettingsChange\<close>), an installed interval fires, or the detector delivers to
  a tick in flight, which then completes. Nothing in the callback looks at the ticks in
  flight, so a firing is possible whenever its interval is installed.
\<close>

datatype event = Play | Fire nat | Deliver

fun step :: "event \<Rightarrow> timer_state \<Rightarrow> timer_state option" where
  "step Play ts = Some (onPlay ts)"
| "step (Fire i) ts =
     (if i \<in> set (installed ts) then Some (ts\<lparr>inFlight := Suc (inFlight ts)\<rparr>) else None)"
| "step Deliver ts =
     (if 0 < inFlight ts then Some (ts\<lparr>inFlight := inFlight ts - 1\<rparr>) else None)"

fun run :: "event list \<Rightarrow> timer_state \<Rightarrow> timer_state option" where
  "run [] ts = Some ts"
| "run (e # es) ts = (case step e ts of None \<Rightarrow> None | Some ts' \<Rightarrow> run es ts')"

definition initialTimers :: timer_state where
  "initialTimers = \<lparr>intervalId = None, installed = [], nextId = 1, inFlight = 0\<rparr>"

section \<open>The settings store\<close>

text \<open>
  The settings object as \<^verbatim>\<open>loadSettings\<close> and \<^verbatim>\<open>saveSettings\<close> see it: a flat
  object, from property names to values. The values are the scalars of JavaScript;
  nested objects and arrays, which a settings object never holds, are left out.
\<close>

datatype jsval = JNum jsnum | JStr string | JBool bool | JNull | JUndefined

type_synonym settings_object = "string \<rightharpoonup> jsval"

text \<open>\<^verbatim>\<open>defaultSettings\<close>, lines 5 to 18, in the order of the literal.\<close>

definition defaultSettings :: "(string \<times> jsval) list" where
  "defaultSettings =
     [(''inputSize'', JNum (Num 256)),
      (''detectionInterval'', JNum (Num 20)),
      (''scoreThreshold'', JNum (Num (1 / 2))),
      (''eyebrowThresholdFloor'', JNum (Num 18)),
      (''eyebrowThresholdCeil'', JNum (Num 25)),
      (''mouthThresholdFloor'', JNum (Num 10)),
      (''mouthThresholdCeil'', JNum (Num 39)),
      (''pitchFloor'', JNum (Num 20)),
      (''pitchCeil'', JNum (Num 400)),
      (''model'', JStr ''tinyFaceDetector''),
      (''showLandmarks'', JBool False),
      (''showGraphics'', JBool True)]"

text \<open>
  An item of \<^verbatim>\<open>localStorage\<close> is a string. The model keeps of it what
  \<^verbatim>\<open>loadSettings\<close> can tell apart: the empty string (falsy), a text that
  \<^verbatim>\<open>JSON.parse\<close> rejects, the JSON text of a primitive value (\<open>null\<close>, a number, a
  string, a boolean), or the JSON text of a flat object, given by the object that
  \<^verbatim>\<open>JSON.parse\<close> makes of it. The JSON text of an array is left out.
\<close>

datatype stored_text =
    EmptyText
  | Unparsable
  | PrimitiveText jsval
  | ObjectText settings_object

type_synonym local_storage = "string \<rightharpoonup> stored_text"

text \<open>
  \<^verbatim>\<open>JSON.stringify\<close> on a flat object: a finite number, a string, a boolean and
  \<open>null\<close> are written as they are, NaN and the infinities are written as \<open>null\<close>,
  and a property whose value is \<open>undefined\<close> is left out.
\<close>

fun json_of :: "jsval \<Rightarrow> jsval option" where
  "json_of (JNum (Num r)) = Some (JNum (Num r))"
| "json_of (JNum _) = Some JNull"
| "json_of (JStr t) = Some (JStr t)"
| "json_of (JBool b) = Some (JBool b)"
| "json_of JNull = Some JNull"
| "json_of JUndefined = None"

definition stringify :: "settings_object \<Rightarrow> stored_text" where
  "stringify obj = ObjectText (\<lambda>key. case obj key of None \<Rightarrow> None | Some v \<Rightarrow> json_of v)"

text \<open>
  Lines 30 to 34: the loop over the keys of \<^verbatim>\<open>defaultSettings\<close>. None of these keys
  is a property of \<^verbatim>\<open>Object.prototype\<close>, so \<^verbatim>\<open>key in settings\<close> asks whether the
  object has the property itself.
\<close>

fun fillDefaults :: "(string \<times> jsval) list \<Rightarrow> settings_object \<Rightarrow> settings_object" where
  "fillDefaults [] obj = obj"
| "fillDefaults ((key, v) # rest) obj =
     fillDefaults rest (if obj key \<noteq> None then obj else obj(key \<mapsto> v))"

text \<open>
  \<^verbatim>\<open>loadSettings()\<close>, lines 24 to 36. \<^verbatim>\<open>getItem\<close> gives \<open>null\<close> for an absent
  item; \<open>null\<close> and the empty string are falsy and give a copy of the defaults.
  \<^verbatim>\<open>JSON.parse\<close> throws a SyntaxError on a text it rejects, and the \<^verbatim>\<open>in\<close>
  operator throws a TypeError when its right operand is not an object.
\<close>

definition loadSettings :: "local_storage \<Rightarrow> js_error + settings_object" where
  "loadSettings storage =
     (case storage ''faceDetectionSettings'' of
        None \<Rightarrow> Inr (fillDefaults defaultSettings (map_of defaultSettings))
      | Some EmptyText \<Rightarrow> Inr (fillDefaults defaultSettings (map_of defaultSettings))
      | Some Unparsable \<Rightarrow> Inl SyntaxError
      | Some (PrimitiveText v) \<Rightarrow> Inl TypeError
      | Some (ObjectText obj) \<Rightarrow> Inr (fillDefaults defaultSettings obj))"

text \<open>
  \<^verbatim>\<open>saveSettings(settings)\<close>, lines 294 to 296. The write to the store is taken
  to succeed.
\<close>

definition saveSettings :: "settings_object \<Rightarrow> local_storage \<Rightarrow> local_storage" where
  "saveSettings obj storage = storage(''faceDetectionSettings'' \<mapsto> stringify obj)"

section \<open>Values that a JSON text can hold\<close>

fun is_finite :: "jsnum \<Rightarrow> bool" where
  "is_finite (Num a) = True"
| "is_finite PosInf = False"
| "is_finite NegInf = False"
| "is_finite NaN = False"

text \<open>
  Finite numbers, strings, booleans and \<open>null\<close>: what the GUI writes into the
  settings.
\<close>

fun json_representable :: "jsval \<Rightarrow> bool" where
  "json_representable (JNum v) = is_finite v"
| "json_representable (JStr t) = True"
| "json_representable (JBool b) = True"
| "json_representable JNull = True"
| "json_representable JUndefined = False"

section \<open>Sample inputs\<close>

definition pt :: "real \<Rightarrow> real \<Rightarrow> point" where
  "pt a b = \<lparr>x = Num a, y = Num b\<rparr>"

text \<open>The thresholds and toggles of \<^verbatim>\<open>defaultSettings\<close>.\<close>

definition defaultThresholds :: settings where
  "defaultThresholds =
     \<lparr>eyebrowThresholdFloor = Num 18, eyebrowThresholdCeil = Num 25,
      mouthThresholdFloor = Num 10, mouthThresholdCeil = Num 39,
      showLandmarks = False, showGraphics = True\<rparr>"

text \<open>
  Both ceiling sliders of the GUI (range 0 to 50, step 1) moved down onto their
  floors.
\<close>

definition equalThresholds :: settings where
  "equalThresholds =
     \<lparr>eyebrowThresholdFloor = Num 18, eyebrowThresholdCeil = Num 18,
      mouthThresholdFloor = Num 10, mouthThresholdCeil = Num 10,
      showLandmarks = False, showGraphics = True\<rparr>"

text \<open>
  A mouth of twenty points whose points 3 and 9 are at distance 10, a five-point
  eyebrow, and six-point eyes 18 and 25 below it.
\<close>

definition sampleMouth :: "point list" where
  "sampleMouth = map (\<lambda>i. pt 0 (if i = 9 then 10 else 0)) [0 ..< 20]"

definition sampleEyebrow :: "point list" where
  "sampleEyebrow = replicate 5 (pt 0 0)"

definition sampleEye18 :: "point list" where
  "sampleEye18 = replicate 6 (pt 0 18)"

definition sampleEye25 :: "point list" where
  "sampleEye25 = replicate 6 (pt 0 25)"

definition sampleFace :: "int \<Rightarrow> bool \<Rightarrow> reading" where
  "sampleFace t running =
     \<lparr>leftEye = sampleEye25, rightEye = sampleEye25,
      leftEyebrow = sampleEyebrow, rightEyebrow = sampleEyebrow,
      mouth = sampleMouth, dateNow = t, gameRunning = running\<rparr>"

text \<open>Two ticks, four seconds apart, each with the sample face and the game stopped.\<close>

definition sampleTicks :: "(settings \<times> reading list) list" where
  "sampleTicks =
     [(defaultThresholds, [sampleFace 5000 False]),
      (defaultThresholds, [sampleFace 9000 False])]"

text \<open>A store that holds a settings text with the single key \<^verbatim>\<open>inputSize\<close>.\<close>

definition savedInputSize :: local_storage where
  "savedInputSize =
     [''faceDetectionSettings'' \<mapsto> ObjectText [''inputSize'' \<mapsto> JNum (Num 128)]]"

text \<open>The default settings with \<^verbatim>\<open>pitchCeil\<close> set to \<^verbatim>\<open>Infinity\<close>.\<close>

definition infinitePitch :: settings_object where
  "infinitePitch = (map_of defaultSettings)(''pitchCeil'' \<mapsto> JNum PosInf)"

section \<open>Facts about the clamp\<close>

text \<open>
  What the composition \<^verbatim>\<open>Math.max(0.0, Math.min(1.0, v))\<close> returns: a finite
  number brought into the interval, an end of the interval for an infinity, and NaN
  for NaN.
\<close>

lemma js_clamp_cases:
  "js_max (Num 0) (js_min (Num 1) v) =
     (case v of
        Num r \<Rightarrow> Num (if r < 0 then 0 else if 1 < r then 1 else r)
      | PosInf \<Rightarrow> Num 1
      | NegInf \<Rightarrow> Num 0
      | NaN \<Rightarrow> NaN)"
  by (cases v) (auto simp add: js_max_def js_min_def)

lemma js_clamp_NaN_iff: "js_max (Num 0) (js_min (Num 1) v) = NaN \<longleftrightarrow> v = NaN"
  by (cases v) (simp_all add: js_clamp_cases)

lemma js_clamp_range:
  "js_max (Num 0) (js_min (Num 1) v) = NaN
   \<or> (\<exists>r. js_max (Num 0) (js_min (Num 1) v) = Num r \<and> 0 \<le> r \<and> r \<le> 1)"
  by (cases v) (simp_all add: js_clamp_cases)

text \<open>Either signal is NaN or lies in the interval, whatever the arithmetic before the clamp.\<close>

lemma calculateEyebrowRaise_range:
  "calculateEyebrowRaise s eyebrow eye = NaN
   \<or> (\<exists>r. calculateEyebrowRaise s eyebrow eye = Num r \<and> 0 \<le> r \<and> r \<le> 1)"
  unfolding calculateEyebrowRaise_def Let_def by (rule js_clamp_range)

lemma calculateMouthOpen_range:
  assumes "calculateMouthOpen s pts = Inr v"
  shows "v = NaN \<or> (\<exists>r. v = Num r \<and> 0 \<le> r \<and> r \<le> 1)"
proof -
  from assms obtain w where "v = js_max (Num 0) (js_min (Num 1) w)"
    by (auto simp add: calculateMouthOpen_def Let_def split: option.splits)
  then show ?thesis
    using js_clamp_range [of w] by simp
qed

lemma calculateMouthOpen_short: "length pts < 10 \<Longrightarrow> calculateMouthOpen s pts = Inl TypeError"
  by (simp add: calculateMouthOpen_def Let_def at_index_def)

section \<open>The signals on the sample inputs\<close>

text \<open>
  Every step of these evaluations is on small whole numbers (sums up to 125,
  \<open>125 / 5\<close>, \<open>7 / 7\<close>, the square root of 100, \<open>0 / 29\<close>) and is exact in doubles.
\<close>

lemma sampleMouth_points:
  "length sampleMouth = 20" "sampleMouth ! 3 = pt 0 0" "sampleMouth ! 9 = pt 0 10"
  by (simp_all add: sampleMouth_def)

lemma sample_raise: "calculateEyebrowRaise defaultThresholds sampleEyebrow sampleEye25 = Num 1"
  by (simp add: calculateEyebrowRaise_def defaultThresholds_def sampleEyebrow_def
        sampleEye25_def pt_def js_sub_def js_clamp_cases at_index_def Let_def numeral_eq_Suc)

lemma sample_open: "calculateMouthOpen defaultThresholds sampleMouth = Inr (Num 0)"
  by (simp add: calculateMouthOpen_def defaultThresholds_def sampleMouth_def pt_def
        euclideanDistance_def js_sub_def js_clamp_cases at_index_def Let_def)

section \<open>Claims about the two signals\<close>

text \<open>
  C1. Both signals are meant to be normalised to the interval from 0 to 1, for every
  setting of the thresholds that the GUI can reach, the ceiling equal to the floor
  included. The clamp of lines 114 and 122 lets NaN through, and with a ceiling on its
  floor the quotient is \<open>0 / 0\<close> as soon as the measured distance equals the floor:
  on the sample inputs, whose distances are 18 and 10, both functions return NaN, which
  is no number between 0 and 1.
\<close>

theorem signals_NaN_at_equal_thresholds:
  "calculateEyebrowRaise equalThresholds sampleEyebrow sampleEye18 = NaN
   \<and> calculateMouthOpen equalThresholds sampleMouth = Inr NaN"
proof -
  have brow: "calculateEyebrowRaise equalThresholds sampleEyebrow sampleEye18 = NaN"
    by (simp add: calculateEyebrowRaise_def equalThresholds_def sampleEyebrow_def
          sampleEye18_def pt_def js_sub_def js_clamp_cases at_index_def Let_def numeral_eq_Suc)
  have "calculateMouthOpen equalThresholds sampleMouth = Inr NaN"
    by (simp add: calculateMouthOpen_def equalThresholds_def sampleMouth_def pt_def
          euclideanDistance_def js_sub_def js_clamp_cases at_index_def Let_def)
  with brow show ?thesis by simp
qed

text \<open>
  C10. \<^verbatim>\<open>calculateMouthOpen\<close> reads the mouth at the indices 3 and 9 only: two mouths
  that agree there give the same result. On a mouth of at least ten points both reads
  are in range and the function returns a value, without an exception.
\<close>

theorem calculateMouthOpen_reads_3_and_9:
  "(at_index pts' 3 = at_index pts 3 \<and> at_index pts' 9 = at_index pts 9
      \<longrightarrow> calculateMouthOpen s pts' = calculateMouthOpen s pts)
   \<and> (10 \<le> length pts \<longrightarrow>
        at_index pts 3 = Some (pts ! 3) \<and> at_index pts 9 = Some (pts ! 9)
        \<and> (\<exists>v. calculateMouthOpen s pts = Inr v))"
  by (auto simp add: calculateMouthOpen_def at_index_def split: option.splits)

theorem calculateMouthOpen_reads_3_and_9_witness:
  "at_index (sampleMouth[0 := pt 7 7]) 3 = at_index sampleMouth 3
   \<and> at_index (sampleMouth[0 := pt 7 7]) 9 = at_index sampleMouth 9
   \<and> 10 \<le> length sampleMouth
   \<and> calculateMouthOpen defaultThresholds (sampleMouth[0 := pt 7 7])
       = calculateMouthOpen defaultThresholds sampleMouth
   \<and> (\<exists>v. calculateMouthOpen defaultThresholds sampleMouth = Inr v)"
proof -
  have hyps: "at_index (sampleMouth[0 := pt 7 7]) 3 = at_index sampleMouth 3
      \<and> at_index (sampleMouth[0 := pt 7 7]) 9 = at_index sampleMouth 9
      \<and> 10 \<le> length sampleMouth"
    by (simp add: at_index_def sampleMouth_points)
  from calculateMouthOpen_reads_3_and_9
         [of "sampleMouth[0 := pt 7 7]" sampleMouth defaultThresholds] hyps
  show ?thesis by blast
qed


section \<open>What a face changes in the state\<close>

lemma maybeReset_frame:
  "mouthOpen (maybeReset d st) = mouthOpen st"
  "leftEyebrowRaise (maybeReset d st) = leftEyebrowRaise st"
  "console (maybeReset d st) = console st"
  "canvas (maybeReset d st) = canvas st"
  by (simp_all add: maybeReset_def Let_def)

lemma drawGraphics_frame:
  "leftEyebrowRaise (snd (drawGraphics s d r st)) = leftEyebrowRaise st"
  "resetCalls (snd (drawGraphics s d r st)) = resetCalls st"
  "lastResetTime (snd (drawGraphics s d r st)) = lastResetTime st"
  "console (snd (drawGraphics s d r st)) = console st"
  by (simp_all add: drawGraphics_def drawCircle_def drawDiamond_def Let_def
        split: sum.splits option.splits)

lemma detectFace_malformed:
  "length (leftEye d) \<noteq> 6 \<or> length (rightEye d) \<noteq> 6 \<Longrightarrow>
   detectFace s d st =
     (Completed, st\<lparr>console := console st @ [''Error: Eye landmarks not detected correctly.'']\<rparr>)"
  by (auto simp add: detectFace_def)

lemma detectFace_resetCalls:
  "resetCalls (snd (detectFace s d st)) =
     (if length (leftEye d) = 6 \<and> length (rightEye d) = 6 \<and> \<not> gameRunning d
         \<and> js_gt (calculateEyebrowRaise s (leftEyebrow d) (leftEye d)) (Num (7 / 10))
         \<and> 3000 < dateNow d - lastResetTime st
      then resetCalls st @ [dateNow d] else resetCalls st)"
  by (simp add: detectFace_def Let_def drawGraphics_frame maybeReset_def)

lemma detectFace_lastResetTime:
  "lastResetTime (snd (detectFace s d st)) =
     (if length (leftEye d) = 6 \<and> length (rightEye d) = 6 \<and> \<not> gameRunning d
         \<and> js_gt (calculateEyebrowRaise s (leftEyebrow d) (leftEye d)) (Num (7 / 10))
         \<and> 3000 < dateNow d - lastResetTime st
      then dateNow d else lastResetTime st)"
  by (simp add: detectFace_def Let_def drawGraphics_frame maybeReset_def)

lemma detectFace_leftEyebrowRaise:
  "leftEyebrowRaise (snd (detectFace s d st)) =
     (if length (leftEye d) = 6 \<and> length (rightEye d) = 6
      then calculateEyebrowRaise s (leftEyebrow d) (leftEye d) else leftEyebrowRaise st)"
  by (simp add: detectFace_def Let_def drawGraphics_frame maybeReset_frame)

lemma detectFace_mouthOpen_changed:
  "mouthOpen (snd (detectFace s d st)) \<noteq> mouthOpen st \<Longrightarrow>
     showGraphics s \<and> length (leftEye d) = 6 \<and> length (rightEye d) = 6"
  by (auto simp add: detectFace_def Let_def maybeReset_frame split: if_splits)

lemma detectFace_hidden:
  "\<not> showGraphics s \<Longrightarrow>
   fst (detectFace s d st) = Completed \<and> mouthOpen (snd (detectFace s d st)) = mouthOpen st"
  by (simp add: detectFace_def Let_def maybeReset_frame)

lemma detectFace_mouthOpen_shown:
  assumes "length (leftEye d) = 6" and "length (rightEye d) = 6" and "showGraphics s"
    and "calculateMouthOpen s (mouth d) = Inr v"
  shows "mouthOpen (snd (detectFace s d st)) = v"
  using assms
  by (simp add: detectFace_def drawGraphics_def drawDiamond_def Let_def split: option.splits)

lemma detectLoop_single: "snd (detectLoop s [d] st) = snd (detectFace s d st)"
  by (cases "detectFace s d st") (simp split: outcome.splits)

lemma detectFaces_single_resetCalls:
  "resetCalls (snd (detectFaces s [d] st)) = resetCalls (snd (detectFace s d st))"
  unfolding detectFaces_def Let_def detectLoop_single
  by (simp add: detectFace_resetCalls)

lemma detectFaces_single_lastResetTime:
  "lastResetTime (snd (detectFaces s [d] st)) = lastResetTime (snd (detectFace s d st))"
  unfolding detectFaces_def Let_def detectLoop_single
  by (simp add: detectFace_lastResetTime)

section \<open>The spacing of the resets\<close>

text \<open>
  The invariant of a run: the logged calls of \<^verbatim>\<open>resetGame\<close> are more than 3000
  apart, each later than the ones before it, and none is later than
  \<^verbatim>\<open>lastResetTime\<close>.
\<close>

lemma detectFace_spaced:
  assumes "sorted_wrt (\<lambda>a b. 3000 < b - a) (resetCalls st)"
    and "\<forall>t \<in> set (resetCalls st). t \<le> lastResetTime st"
  shows "sorted_wrt (\<lambda>a b. 3000 < b - a) (resetCalls (snd (detectFace s d st)))
         \<and> (\<forall>t \<in> set (resetCalls (snd (detectFace s d st))).
               t \<le> lastResetTime (snd (detectFace s d st)))"
  using assms
  by (force simp add: detectFace_resetCalls detectFace_lastResetTime sorted_wrt_append)

lemma detectLoop_spaced:
  "sorted_wrt (\<lambda>a b. 3000 < b - a) (resetCalls st) \<Longrightarrow>
   \<forall>t \<in> set (resetCalls st). t \<le> lastResetTime st \<Longrightarrow>
   sorted_wrt (\<lambda>a b. 3000 < b - a) (resetCalls (snd (detectLoop s ds st)))
   \<and> (\<forall>t \<in> set (resetCalls (snd (detectLoop s ds st))).
         t \<le> lastResetTime (snd (detectLoop s ds st)))"
proof (induction ds arbitrary: st)
  case Nil
  then show ?case by simp
next
  case (Cons d ds)
  obtain out st' where face: "detectFace s d st = (out, st')"
    by (cases "detectFace s d st")
  from detectFace_spaced [OF Cons.prems, of s d] face
  have inv': "sorted_wrt (\<lambda>a b. 3000 < b - a) (resetCalls st')"
             "\<forall>t \<in> set (resetCalls st'). t \<le> lastResetTime st'"
    by simp_all
  show ?case
  proof (cases out)
    case Completed
    with face Cons.IH [OF inv'] show ?thesis by simp
  next
    case (Threw e)
    with face inv' show ?thesis by simp
  qed
qed

lemma detectFaces_spaced:
  "sorted_wrt (\<lambda>a b. 3000 < b - a) (resetCalls st) \<Longrightarrow>
   \<forall>t \<in> set (resetCalls st). t \<le> lastResetTime st \<Longrightarrow>
   sorted_wrt (\<lambda>a b. 3000 < b - a) (resetCalls (snd (detectFaces s ds st)))
   \<and> (\<forall>t \<in> set (resetCalls (snd (detectFaces s ds st))).
         t \<le> lastResetTime (snd (detectFaces s ds st)))"
  unfolding detectFaces_def Let_def
  by (rule detectLoop_spaced) simp_all

lemma runTicks_spaced:
  "sorted_wrt (\<lambda>a b. 3000 < b - a) (resetCalls st) \<Longrightarrow>
   \<forall>t \<in> set (resetCalls st). t \<le> lastResetTime st \<Longrightarrow>
   sorted_wrt (\<lambda>a b. 3000 < b - a) (resetCalls (runTicks ticks st))"
proof (induction ticks arbitrary: st)
  case Nil
  then show ?case by simp
next
  case (Cons tick ticks)
  obtain s ds where tick: "tick = (s, ds)" by (cases tick)
  from detectFaces_spaced [OF Cons.prems, of s ds] Cons.IH
  show ?case by (simp add: tick)
qed

lemma detectLoop_mouthOpen:
  "\<not> showGraphics s \<Longrightarrow> mouthOpen (snd (detectLoop s ds st)) = mouthOpen st"
proof (induction ds arbitrary: st)
  case Nil
  then show ?case by simp
next
  case (Cons d ds)
  obtain out st' where face: "detectFace s d st = (out, st')"
    by (cases "detectFace s d st")
  with detectFace_hidden [OF Cons.prems, of d st]
  have "out = Completed" and "mouthOpen st' = mouthOpen st"
    by simp_all
  with Cons.IH [OF Cons.prems, of st'] face
  show ?case by simp
qed

section \<open>The sample face\<close>

lemma sampleFace_fields:
  "leftEye (sampleFace t r) = sampleEye25" "rightEye (sampleFace t r) = sampleEye25"
  "leftEyebrow (sampleFace t r) = sampleEyebrow" "rightEyebrow (sampleFace t r) = sampleEyebrow"
  "mouth (sampleFace t r) = sampleMouth"
  "dateNow (sampleFace t r) = t" "gameRunning (sampleFace t r) = r"
  by (simp_all add: sampleFace_def)

lemma defaultThresholds_shown: "showGraphics defaultThresholds"
  by (simp add: defaultThresholds_def)

lemma sampleEye25_length: "length sampleEye25 = 6"
  by (simp add: sampleEye25_def)

lemma sampleFace_resets:
  "resetCalls (snd (detectFace defaultThresholds (sampleFace t False) st))
   = (if 3000 < t - lastResetTime st then resetCalls st @ [t] else resetCalls st)"
  "lastResetTime (snd (detectFace defaultThresholds (sampleFace t False) st))
   = (if 3000 < t - lastResetTime st then t else lastResetTime st)"
  by (simp_all add: detectFace_resetCalls detectFace_lastResetTime sampleFace_fields
        sampleEye25_length sample_raise js_gt_def)

lemma sampleTicks_resets: "resetCalls (runTicks sampleTicks initialState) = [5000, 9000]"
  by (simp add: sampleTicks_def detectFaces_single_resetCalls detectFaces_single_lastResetTime
        sampleFace_resets initialState_def)

section \<open>Claims about a detection tick\<close>

text \<open>
  C2. The reset of the game is debounced. For each face of a tick, \<^verbatim>\<open>resetGame\<close> is
  called only if the game is not running, the left eyebrow signal just computed
  exceeds 0.7 and more than 3000 milliseconds have passed since \<^verbatim>\<open>lastResetTime\<close>;
  the call is then logged with the current time, which becomes the new
  \<^verbatim>\<open>lastResetTime\<close>. So over any run of ticks from the initial state, any two calls
  of \<^verbatim>\<open>resetGame\<close> are more than 3000 milliseconds apart.
\<close>

theorem resetGame_debounced:
  "(resetCalls (snd (detectFace s d st)) \<noteq> resetCalls st \<longrightarrow>
      \<not> gameRunning d
      \<and> js_gt (leftEyebrowRaise (snd (detectFace s d st))) (Num (7 / 10))
      \<and> 3000 < dateNow d - lastResetTime st
      \<and> resetCalls (snd (detectFace s d st)) = resetCalls st @ [dateNow d]
      \<and> lastResetTime (snd (detectFace s d st)) = dateNow d)
   \<and> (\<forall>i j. i < j \<and> j < length (resetCalls (runTicks ticks initialState)) \<longrightarrow>
         3000 < resetCalls (runTicks ticks initialState) ! j
                 - resetCalls (runTicks ticks initialState) ! i)"
proof -
  have "sorted_wrt (\<lambda>a b. 3000 < b - a) (resetCalls (runTicks ticks initialState))"
    by (rule runTicks_spaced) (simp_all add: initialState_def)
  then have apart: "\<forall>i j. i < j \<and> j < length (resetCalls (runTicks ticks initialState)) \<longrightarrow>
         3000 < resetCalls (runTicks ticks initialState) ! j
                 - resetCalls (runTicks ticks initialState) ! i"
    by (simp add: sorted_wrt_iff_nth_less)
  have "resetCalls (snd (detectFace s d st)) \<noteq> resetCalls st \<longrightarrow>
      \<not> gameRunning d
      \<and> js_gt (leftEyebrowRaise (snd (detectFace s d st))) (Num (7 / 10))
      \<and> 3000 < dateNow d - lastResetTime st
      \<and> resetCalls (snd (detectFace s d st)) = resetCalls st @ [dateNow d]
      \<and> lastResetTime (snd (detectFace s d st)) = dateNow d"
    by (simp add: detectFace_resetCalls detectFace_lastResetTime detectFace_leftEyebrowRaise)
  with apart show ?thesis by blast
qed

theorem resetGame_debounced_witness:
  "resetCalls (snd (detectFace defaultThresholds (sampleFace 5000 False) initialState))
     \<noteq> resetCalls initialState
   \<and> \<not> gameRunning (sampleFace 5000 False)
   \<and> js_gt (leftEyebrowRaise (snd (detectFace defaultThresholds (sampleFace 5000 False) initialState)))
        (Num (7 / 10))
   \<and> 3000 < dateNow (sampleFace 5000 False) - lastResetTime initialState
   \<and> resetCalls (runTicks sampleTicks initialState) = [5000, 9000]
   \<and> (0::nat) < 1 \<and> 1 < length (resetCalls (runTicks sampleTicks initialState))
   \<and> 3000 < resetCalls (runTicks sampleTicks initialState) ! 1
             - resetCalls (runTicks sampleTicks initialState) ! 0"
proof -
  have called: "resetCalls (snd (detectFace defaultThresholds (sampleFace 5000 False) initialState))
                \<noteq> resetCalls initialState"
    by (simp add: sampleFace_resets initialState_def)
  have two: "(0::nat) < 1 \<and> 1 < length (resetCalls (runTicks sampleTicks initialState))"
    by (simp add: sampleTicks_resets)
  from resetGame_debounced
         [of defaultThresholds "sampleFace 5000 False" initialState sampleTicks] called two
  show ?thesis
    by (simp add: sampleTicks_resets)
qed

text \<open>
  C3. When the left or the right eye of a face does not have exactly six points, the
  tick logs one message for that face and does nothing else: the left eyebrow signal,
  the mouth signal, \<^verbatim>\<open>lastResetTime\<close> and the canvas stay as they were,
  \<^verbatim>\<open>resetGame\<close> is not called, and no exception is thrown.
\<close>

theorem malformed_eyes_only_log:
  "length (leftEye d) \<noteq> 6 \<or> length (rightEye d) \<noteq> 6 \<longrightarrow>
     fst (detectFace s d st) = Completed
     \<and> console (snd (detectFace s d st))
         = console st @ [''Error: Eye landmarks not detected correctly.'']
     \<and> leftEyebrowRaise (snd (detectFace s d st)) = leftEyebrowRaise st
     \<and> mouthOpen (snd (detectFace s d st)) = mouthOpen st
     \<and> resetCalls (snd (detectFace s d st)) = resetCalls st
     \<and> lastResetTime (snd (detectFace s d st)) = lastResetTime st
     \<and> canvas (snd (detectFace s d st)) = canvas st"
proof
  assume "length (leftEye d) \<noteq> 6 \<or> length (rightEye d) \<noteq> 6"
  from detectFace_malformed [OF this, of s st] show
    "fst (detectFace s d st) = Completed
     \<and> console (snd (detectFace s d st))
         = console st @ [''Error: Eye landmarks not detected correctly.'']
     \<and> leftEyebrowRaise (snd (detectFace s d st)) = leftEyebrowRaise st
     \<and> mouthOpen (snd (detectFace s d st)) = mouthOpen st
     \<and> resetCalls (snd (detectFace s d st)) = resetCalls st
     \<and> lastResetTime (snd (detectFace s d st)) = lastResetTime st
     \<and> canvas (snd (detectFace s d st)) = canvas st"
    by simp
qed

theorem malformed_eyes_only_log_witness:
  "length (leftEye ((sampleFace 5000 False)\<lparr>leftEye := []\<rparr>)) \<noteq> 6
   \<and> fst (detectFace defaultThresholds ((sampleFace 5000 False)\<lparr>leftEye := []\<rparr>) initialState)
       = Completed
   \<and> console (snd (detectFace defaultThresholds ((sampleFace 5000 False)\<lparr>leftEye := []\<rparr>)
                      initialState))
       = [''Error: Eye landmarks not detected correctly.'']
   \<and> leftEyebrowRaise (snd (detectFace defaultThresholds
                               ((sampleFace 5000 False)\<lparr>leftEye := []\<rparr>) initialState))
       = Num 0
   \<and> resetCalls (snd (detectFace defaultThresholds
                         ((sampleFace 5000 False)\<lparr>leftEye := []\<rparr>) initialState)) = []"
proof -
  have bad: "length (leftEye ((sampleFace 5000 False)\<lparr>leftEye := []\<rparr>)) \<noteq> 6"
    by simp
  from malformed_eyes_only_log
         [of "(sampleFace 5000 False)\<lparr>leftEye := []\<rparr>" defaultThresholds initialState] bad
  show ?thesis
    by (simp add: initialState_def)
qed

text \<open>
  C9. The mouth signal that \<^verbatim>\<open>getMouthOpen\<close> returns changes for a face only when
  \<^verbatim>\<open>settings.showGraphics\<close> is true and both eyes have six points. While
  \<^verbatim>\<open>showGraphics\<close> is false a whole tick leaves it as it was, whatever the mouth
  landmarks are, and throws nothing, while the left eyebrow signal of a face with
  well-formed eyes is still computed and stored.
\<close>

theorem mouthOpen_only_with_graphics:
  "(getMouthOpen (snd (detectFace s d st)) \<noteq> getMouthOpen st \<longrightarrow>
      showGraphics s \<and> length (leftEye d) = 6 \<and> length (rightEye d) = 6)
   \<and> (\<not> showGraphics s \<longrightarrow>
        getMouthOpen (snd (detectFaces s ds st)) = getMouthOpen st
        \<and> fst (detectFace s d st) = Completed
        \<and> (length (leftEye d) = 6 \<and> length (rightEye d) = 6 \<longrightarrow>
             getBrows (snd (detectFace s d st))
               = calculateEyebrowRaise s (leftEyebrow d) (leftEye d)))"
proof -
  have only_when: "getMouthOpen (snd (detectFace s d st)) \<noteq> getMouthOpen st \<longrightarrow>
      showGraphics s \<and> length (leftEye d) = 6 \<and> length (rightEye d) = 6"
    using detectFace_mouthOpen_changed [of s d st] by (simp add: getMouthOpen_def)
  have kept: "\<not> showGraphics s \<longrightarrow> getMouthOpen (snd (detectFaces s ds st)) = getMouthOpen st"
    by (simp add: getMouthOpen_def detectFaces_def Let_def detectLoop_mouthOpen)
  have no_throw: "\<not> showGraphics s \<longrightarrow> fst (detectFace s d st) = Completed"
    using detectFace_hidden [of s d st] by simp
  have brows: "length (leftEye d) = 6 \<and> length (rightEye d) = 6 \<longrightarrow>
             getBrows (snd (detectFace s d st))
               = calculateEyebrowRaise s (leftEyebrow d) (leftEye d)"
    by (simp add: getBrows_def detectFace_leftEyebrowRaise)
  from only_when kept no_throw brows show ?thesis by blast
qed

theorem mouthOpen_only_with_graphics_witness:
  "getMouthOpen (snd (detectFace defaultThresholds (sampleFace 5000 False)
                        (initialState\<lparr>mouthOpen := Num 1\<rparr>)))
     \<noteq> getMouthOpen (initialState\<lparr>mouthOpen := Num 1\<rparr>)
   \<and> showGraphics defaultThresholds
   \<and> length (leftEye (sampleFace 5000 False)) = 6
   \<and> length (rightEye (sampleFace 5000 False)) = 6
   \<and> \<not> showGraphics (defaultThresholds\<lparr>showGraphics := False\<rparr>)
   \<and> getMouthOpen (snd (detectFaces (defaultThresholds\<lparr>showGraphics := False\<rparr>)
                           [sampleFace 5000 False] (initialState\<lparr>mouthOpen := Num 1\<rparr>)))
       = getMouthOpen (initialState\<lparr>mouthOpen := Num 1\<rparr>)
   \<and> fst (detectFace (defaultThresholds\<lparr>showGraphics := False\<rparr>) (sampleFace 5000 False)
             (initialState\<lparr>mouthOpen := Num 1\<rparr>)) = Completed
   \<and> getBrows (snd (detectFace (defaultThresholds\<lparr>showGraphics := False\<rparr>)
                       (sampleFace 5000 False) (initialState\<lparr>mouthOpen := Num 1\<rparr>)))
       = calculateEyebrowRaise (defaultThresholds\<lparr>showGraphics := False\<rparr>)
           sampleEyebrow sampleEye25"
proof -
  have "mouthOpen (snd (detectFace defaultThresholds (sampleFace 5000 False)
                          (initialState\<lparr>mouthOpen := Num 1\<rparr>))) = Num 0"
    by (rule detectFace_mouthOpen_shown)
       (simp_all add: sampleFace_fields sampleEye25_length sample_open defaultThresholds_shown)
  then have changed:
    "getMouthOpen (snd (detectFace defaultThresholds (sampleFace 5000 False)
                          (initialState\<lparr>mouthOpen := Num 1\<rparr>)))
     \<noteq> getMouthOpen (initialState\<lparr>mouthOpen := Num 1\<rparr>)"
    by (simp add: getMouthOpen_def)
  have hidden: "\<not> showGraphics (defaultThresholds\<lparr>showGraphics := False\<rparr>)"
    by simp
  have eyes: "length (leftEye (sampleFace 5000 False)) = 6
              \<and> length (rightEye (sampleFace 5000 False)) = 6"
    by (simp add: sampleFace_fields sampleEye25_length)
  from mouthOpen_only_with_graphics
         [of defaultThresholds "sampleFace 5000 False" "initialState\<lparr>mouthOpen := Num 1\<rparr>"]
       mouthOpen_only_with_graphics
         [of "defaultThresholds\<lparr>showGraphics := False\<rparr>" "sampleFace 5000 False"
             "initialState\<lparr>mouthOpen := Num 1\<rparr>" "[sampleFace 5000 False]"]
       changed hidden eyes
  show ?thesis
    by (simp add: sampleFace_fields)
qed

section \<open>Claims about the detection timer\<close>

lemma timers_inv_step:
  assumes "installed ts = (case intervalId ts of None \<Rightarrow> [] | Some i \<Rightarrow> [i])"
    and "step e ts = Some ts'"
  shows "installed ts' = (case intervalId ts' of None \<Rightarrow> [] | Some i \<Rightarrow> [i])"
  using assms
  by (cases e)
     (auto simp add: onPlay_def clearInterval_def setInterval_def Let_def
           split: option.splits if_splits)

lemma timers_inv_run:
  "installed ts = (case intervalId ts of None \<Rightarrow> [] | Some i \<Rightarrow> [i]) \<Longrightarrow>
   run es ts = Some ts' \<Longrightarrow>
   installed ts' = (case intervalId ts' of None \<Rightarrow> [] | Some i \<Rightarrow> [i])"
proof (induction es arbitrary: ts)
  case Nil
  then show ?case by simp
next
  case (Cons e es)
  from Cons.prems(2) obtain ts1 where one: "step e ts = Some ts1" and rest: "run es ts1 = Some ts'"
    by (auto split: option.splits)
  from Cons.IH [OF timers_inv_step [OF Cons.prems(1) one] rest] show ?case .
qed

lemma run_append:
  "run (es @ es') ts = (case run es ts of None \<Rightarrow> None | Some ts1 \<Rightarrow> run es' ts1)"
  by (induction es arbitrary: ts) (simp_all split: option.splits)

lemma onPlay_initial:
  "onPlay initialTimers = \<lparr>intervalId = Some 1, installed = [1], nextId = 2, inFlight = 0\<rparr>"
  by (simp add: initialTimers_def onPlay_def clearInterval_def setInterval_def)

text \<open>
  C6. The claim: the detection ticks are driven by a single periodic timer and run
  one after the other, so that at most one interval is active and no tick begins
  before the tick before it has completed. The first half holds; the second does not:
  \<^verbatim>\<open>setInterval\<close> does not wait for the promise of its \<^verbatim>\<open>async\<close> callback, and
  nothing in \<^verbatim>\<open>onPlay\<close> or \<^verbatim>\<open>detectFaces\<close> holds a firing back while a tick awaits
  its detector. After \<^verbatim>\<open>onPlay\<close>, two firings of interval 1 with no delivery between
  them leave two ticks in flight.
\<close>

theorem ticks_overlap_counterexample:
  "map_option inFlight (run [Play, Fire 1, Fire 1] initialTimers) = Some 2"
  by (simp add: onPlay_initial)

text \<open>
  C6 as amended. In every state that the events can reach from the initial one, at
  most one detection interval is installed, and it is the one that \<open>intervalId\<close>
  names: \<^verbatim>\<open>onPlay\<close> clears the interval before it before installing a new one. A
  firing of the installed interval begins a tick whatever the number of ticks in
  flight.
\<close>

theorem single_interval:
  assumes "run es initialTimers = Some ts"
  shows "length (installed ts) \<le> 1
         \<and> (\<forall>i \<in> set (installed ts).
               intervalId ts = Some i
               \<and> run (es @ [Fire i]) initialTimers = Some (ts\<lparr>inFlight := Suc (inFlight ts)\<rparr>))"
proof -
  have "installed ts = (case intervalId ts of None \<Rightarrow> [] | Some i \<Rightarrow> [i])"
    by (rule timers_inv_run [OF _ assms]) (simp add: initialTimers_def)
  then show ?thesis
    using assms by (auto simp add: run_append split: option.splits)
qed

theorem single_interval_witness:
  "run [Play, Fire 1] initialTimers
     = Some \<lparr>intervalId = Some 1, installed = [1], nextId = 2, inFlight = 1\<rparr>
   \<and> length (installed \<lparr>intervalId = Some 1, installed = [1], nextId = 2, inFlight = 1\<rparr>) \<le> 1
   \<and> run ([Play, Fire 1] @ [Fire 1]) initialTimers
     = Some \<lparr>intervalId = Some 1, installed = [1], nextId = 2, inFlight = 2\<rparr>"
proof -
  have reach: "run [Play, Fire 1] initialTimers
     = Some \<lparr>intervalId = Some 1, installed = [1], nextId = 2, inFlight = 1\<rparr>"
    by (simp add: onPlay_initial)
  from single_interval [OF reach] reach show ?thesis
    by simp
qed

section \<open>Claims about the settings store\<close>

lemma fillDefaults_lookup:
  "fillDefaults ds obj key = (case obj key of Some v \<Rightarrow> Some v | None \<Rightarrow> map_of ds key)"
proof (induction ds arbitrary: obj)
  case Nil
  then show ?case by (simp split: option.splits)
next
  case (Cons kv ds)
  obtain k v where kv: "kv = (k, v)" by (cases kv)
  show ?case
    unfolding kv fillDefaults.simps Cons.IH
    by (auto split: option.splits)
qed

lemma fillDefaults_map_add: "fillDefaults ds obj = map_of ds ++ obj"
  by (rule ext) (simp add: fillDefaults_lookup map_add_def split: option.splits)

lemma default_keys_present: "fst ` set defaultSettings \<subseteq> dom (map_of defaultSettings ++ m)"
  by (simp add: dom_map_of_conv_image_fst)

lemma json_of_representable: "json_representable v \<Longrightarrow> json_of v = Some v"
  by (cases v rule: json_of.cases) simp_all

lemma defaults_representable: "map_of defaultSettings key = Some v \<Longrightarrow> json_representable v"
  by (auto simp add: defaultSettings_def split: if_splits)

text \<open>
  C7. \<^verbatim>\<open>loadSettings\<close> yields a complete settings object. When nothing is
  persisted it returns the defaults. When a flat object is persisted, which may lack
  keys, the result has every key of \<^verbatim>\<open>defaultSettings\<close>, it keeps every persisted
  key with its persisted value, and every key that is not persisted has its default
  value.
\<close>

theorem loadSettings_complete:
  "(storage ''faceDetectionSettings'' = None \<longrightarrow>
      (\<exists>r. loadSettings storage = Inr r
         \<and> fst ` set defaultSettings \<subseteq> dom r
         \<and> (\<forall>key. r key = map_of defaultSettings key)))
   \<and> (storage ''faceDetectionSettings'' = Some (ObjectText persisted) \<longrightarrow>
      (\<exists>r. loadSettings storage = Inr r
         \<and> fst ` set defaultSettings \<subseteq> dom r
         \<and> (\<forall>key v. persisted key = Some v \<longrightarrow> r key = Some v)
         \<and> (\<forall>key. persisted key = None \<longrightarrow> r key = map_of defaultSettings key)))"
  using default_keys_present [of persisted] default_keys_present [of "map_of defaultSettings"]
  by (auto simp add: loadSettings_def fillDefaults_map_add map_add_def split: option.splits)

theorem loadSettings_complete_witness:
  "(Map.empty :: local_storage) ''faceDetectionSettings'' = None
   \<and> (\<exists>r. loadSettings Map.empty = Inr r \<and> r ''pitchCeil'' = Some (JNum (Num 400)))
   \<and> savedInputSize ''faceDetectionSettings''
       = Some (ObjectText [''inputSize'' \<mapsto> JNum (Num 128)])
   \<and> (\<exists>r. loadSettings savedInputSize = Inr r
         \<and> r ''inputSize'' = Some (JNum (Num 128))
         \<and> r ''pitchCeil'' = Some (JNum (Num 400)))"
proof -
  have absent: "(Map.empty :: local_storage) ''faceDetectionSettings'' = None"
    by simp
  have saved: "savedInputSize ''faceDetectionSettings''
               = Some (ObjectText [''inputSize'' \<mapsto> JNum (Num 128)])"
    by (simp add: savedInputSize_def)
  have pitch: "map_of defaultSettings ''pitchCeil'' = Some (JNum (Num 400))"
    by (simp add: defaultSettings_def)
  have keys: "[''inputSize'' \<mapsto> JNum (Num 128)] ''inputSize'' = Some (JNum (Num 128))"
    "[''inputSize'' \<mapsto> JNum (Num 128)] ''pitchCeil'' = None"
    by simp_all
  from loadSettings_complete [of Map.empty "[''inputSize'' \<mapsto> JNum (Num 128)]"] absent
  obtain r1 where r1: "loadSettings Map.empty = Inr r1"
    and r1_default: "\<forall>key. r1 key = map_of defaultSettings key"
    by blast
  from r1_default pitch have "r1 ''pitchCeil'' = Some (JNum (Num 400))"
    by simp
  with r1 have one: "\<exists>r. loadSettings Map.empty = Inr r \<and> r ''pitchCeil'' = Some (JNum (Num 400))"
    by blast
  from loadSettings_complete [of savedInputSize "[''inputSize'' \<mapsto> JNum (Num 128)]"] saved
  obtain r2 where r2: "loadSettings savedInputSize = Inr r2"
    and r2_kept: "\<forall>key v. [''inputSize'' \<mapsto> JNum (Num 128)] key = Some v \<longrightarrow> r2 key = Some v"
    and r2_default: "\<forall>key. [''inputSize'' \<mapsto> JNum (Num 128)] key = None
                       \<longrightarrow> r2 key = map_of defaultSettings key"
    by blast
  from r2_kept keys(1) have "r2 ''inputSize'' = Some (JNum (Num 128))"
    by blast
  moreover from r2_default keys(2) pitch have "r2 ''pitchCeil'' = Some (JNum (Num 400))"
    by simp
  ultimately have two: "\<exists>r. loadSettings savedInputSize = Inr r
         \<and> r ''inputSize'' = Some (JNum (Num 128))
         \<and> r ''pitchCeil'' = Some (JNum (Num 400))"
    using r2 by blast
  from absent saved one two show ?thesis by blast
qed

text \<open>
  C8. The claim: for every settings object with all the keys of
  \<^verbatim>\<open>defaultSettings\<close>, \<^verbatim>\<open>saveSettings\<close> followed by \<^verbatim>\<open>loadSettings\<close> returns an
  object equal to the one saved. It fails for a value that a JSON text cannot hold:
  \<^verbatim>\<open>JSON.stringify\<close> writes \<^verbatim>\<open>Infinity\<close> as \<open>null\<close>, so the default settings
  with \<^verbatim>\<open>pitchCeil\<close> set to \<^verbatim>\<open>Infinity\<close> come back with \<^verbatim>\<open>pitchCeil\<close> equal to
  \<open>null\<close>.
\<close>

theorem save_load_infinity_counterexample:
  "fst ` set defaultSettings \<subseteq> dom infinitePitch
   \<and> loadSettings (saveSettings infinitePitch Map.empty) \<noteq> Inr infinitePitch
   \<and> map_sum id (\<lambda>r. r ''pitchCeil'') (loadSettings (saveSettings infinitePitch Map.empty))
       = Inr (Some JNull)"
proof -
  have loaded: "loadSettings (saveSettings infinitePitch Map.empty)
        = Inr (fillDefaults defaultSettings
                 (\<lambda>key. case infinitePitch key of None \<Rightarrow> None | Some v \<Rightarrow> json_of v))"
    by (simp add: loadSettings_def saveSettings_def stringify_def)
  have returned: "fillDefaults defaultSettings
                 (\<lambda>key. case infinitePitch key of None \<Rightarrow> None | Some v \<Rightarrow> json_of v) ''pitchCeil''
                 = Some JNull"
    by (simp add: fillDefaults_lookup infinitePitch_def)
  have sent: "infinitePitch ''pitchCeil'' = Some (JNum PosInf)"
    by (simp add: infinitePitch_def)
  have differ: "loadSettings (saveSettings infinitePitch Map.empty) \<noteq> Inr infinitePitch"
  proof
    assume "loadSettings (saveSettings infinitePitch Map.empty) = Inr infinitePitch"
    with loaded have "fillDefaults defaultSettings
        (\<lambda>key. case infinitePitch key of None \<Rightarrow> None | Some v \<Rightarrow> json_of v) = infinitePitch"
      by simp
    then have "fillDefaults defaultSettings
        (\<lambda>key. case infinitePitch key of None \<Rightarrow> None | Some v \<Rightarrow> json_of v) ''pitchCeil''
        = infinitePitch ''pitchCeil''"
      by (rule fun_cong)
    with returned sent show False
      by simp
  qed
  have keys: "fst ` set defaultSettings \<subseteq> dom infinitePitch"
    by (simp add: infinitePitch_def dom_map_of_conv_image_fst subset_insertI)
  from loaded returned have "map_sum id (\<lambda>r. r ''pitchCeil'')
          (loadSettings (saveSettings infinitePitch Map.empty)) = Inr (Some JNull)"
    by simp
  with keys differ show ?thesis by simp
qed

text \<open>
  C8 as amended. For every settings object that has all the keys of
  \<^verbatim>\<open>defaultSettings\<close> and whose values are finite numbers, strings, booleans or
  \<open>null\<close>, \<^verbatim>\<open>saveSettings\<close> followed by \<^verbatim>\<open>loadSettings\<close> returns an object
  equal to the one saved.
\<close>

theorem save_load_roundtrip:
  assumes "fst ` set defaultSettings \<subseteq> dom obj"
    and "\<forall>key v. obj key = Some v \<longrightarrow> json_representable v"
  shows "loadSettings (saveSettings obj storage) = Inr obj"
proof -
  have "(\<lambda>key. case obj key of None \<Rightarrow> None | Some v \<Rightarrow> json_of v) = obj"
    using assms(2) by (auto simp add: fun_eq_iff json_of_representable split: option.splits)
  then have "loadSettings (saveSettings obj storage) = Inr (map_of defaultSettings ++ obj)"
    by (simp add: loadSettings_def saveSettings_def stringify_def fillDefaults_map_add)
  moreover have "map_of defaultSettings ++ obj = obj"
  proof (rule ext)
    fix key
    show "(map_of defaultSettings ++ obj) key = obj key"
    proof (cases "obj key")
      case None
      with assms(1) have "key \<notin> fst ` set defaultSettings" by auto
      then have "map_of defaultSettings key = None"
        by (simp add: map_of_eq_None_iff)
      with None show ?thesis by (simp add: map_add_def)
    next
      case (Some v)
      then show ?thesis by (simp add: map_add_def)
    qed
  qed
  ultimately show ?thesis by simp
qed

theorem save_load_roundtrip_witness:
  "fst ` set defaultSettings \<subseteq> dom (map_of defaultSettings)
   \<and> loadSettings (saveSettings (map_of defaultSettings) Map.empty)
       = Inr (map_of defaultSettings)"
proof -
  have keys: "fst ` set defaultSettings \<subseteq> dom (map_of defaultSettings)"
    by (simp add: dom_map_of_conv_image_fst)
  have representable: "\<forall>key v. map_of defaultSettings key = Some v \<longrightarrow> json_representable v"
    using defaults_representable by blast
  from save_load_roundtrip [OF keys representable, of Map.empty] keys show ?thesis
    by simp
qed


end
